theory Spec2Isabelle
  imports Complex_Main
begin

section \<open>Inspection service (src/services/InspectionService.ts)\<close>

subsection \<open>Data\<close>

text \<open>
  The overall condition is the string union
  \<^verbatim>\<open>'excellent' | 'good' | 'fair' | 'poor' | 'damaged'\<close>, and a checklist status is
  \<^verbatim>\<open>'pass' | 'fail' | 'needs_attention'\<close>.  Severities are compared with string
  literals in the source and are optional there, so they are kept as optional strings:
  \<open>None\<close> is \<^verbatim>\<open>undefined\<close>.
\<close>

datatype Condition = Excellent | Good | Fair | Poor | Damaged

datatype ChecklistStatus = Pass | Fail | NeedsAttention

record ChecklistItem =
  item_status :: ChecklistStatus
  item_severity :: "string option"

text \<open>
  The fields of a damage report are those of the object literal that
  \<^verbatim>\<open>createDamageReport\<close> returns.  Times are milliseconds since the epoch.
\<close>

record DamageReport =
  dr_id :: string
  component :: string
  hasDamage :: bool
  severity :: "string option"
  description :: string
  photos :: "string list"
  annotations :: "string list"
  estimatedCost :: int
  repairRequired :: bool
  reportedAt :: int

subsection \<open>Numbers in template strings\<close>

text \<open>
  Decimal rendering of an integer, as a template literal prints it (below the magnitude
  at which the source language switches to exponent notation).
\<close>

fun digits :: "nat \<Rightarrow> string" where
  "digits n =
     (if n < 10 then [''0123456789'' ! n]
      else digits (n div 10) @ [''0123456789'' ! (n mod 10)])"

declare digits.simps [simp del]

definition toString :: "int \<Rightarrow> string" where
  "toString n = (if n < 0 then CHR ''-'' # digits (nat (- n)) else digits (nat n))"

subsection \<open>determinOverallCondition\<close>

definition determinOverallCondition ::
  "DamageReport list \<Rightarrow> ChecklistItem list \<Rightarrow> Condition" where
  "determinOverallCondition damages checklistItems =
     (let hasCriticalDamage = list_ex (\<lambda>damage. severity damage = Some ''critical'') damages in
      if hasCriticalDamage then Damaged
      else
        let hasMajorDamage = list_ex (\<lambda>damage. severity damage = Some ''major'') damages in
        if hasMajorDamage then Poor
        else
          let failedItems = filter (\<lambda>item. item_status item = Fail) checklistItems;
              criticalFailures =
                filter (\<lambda>item. item_severity item = Some ''critical'') failedItems
          in
          if length criticalFailures > 0 then Poor
          else if length failedItems > 3 then Fair
          else
            let hasModerateNeedsAttention =
                  (list_ex (\<lambda>damage. severity damage = Some ''moderate'') damages \<or>
                   list_ex (\<lambda>item. item_status item = NeedsAttention) checklistItems)
            in
            if hasModerateNeedsAttention then Fair
            else
              let hasMinorIssues =
                    (list_ex (\<lambda>damage. severity damage = Some ''minor'') damages \<or>
                     length failedItems > 0)
              in
              if hasMinorIssues then Good else Excellent)"

subsection \<open>The reference definition of the condition assessor\<close>

text \<open>
  The specification gives the assessor as seven rules in strict priority order, the first
  matching rule deciding the result.  \<open>firstMatch\<close> evaluates such a rule table, and
  \<open>assessCondition\<close> is the table of the specification, rule by rule.
\<close>

fun firstMatch :: "(bool \<times> 'a) list \<Rightarrow> 'a \<Rightarrow> 'a" where
  "firstMatch [] otherwise = otherwise"
| "firstMatch ((applies, result) # rules) otherwise =
     (if applies then result else firstMatch rules otherwise)"

definition anyDamage :: "string \<Rightarrow> DamageReport list \<Rightarrow> bool" where
  "anyDamage sev damages = (\<exists>d \<in> set damages. severity d = Some sev)"

definition anyItem :: "ChecklistStatus \<Rightarrow> ChecklistItem list \<Rightarrow> bool" where
  "anyItem st items = (\<exists>i \<in> set items. item_status i = st)"

definition failCount :: "ChecklistItem list \<Rightarrow> nat" where
  "failCount items = length [i \<leftarrow> items. item_status i = Fail]"

definition assessCondition :: "DamageReport list \<Rightarrow> ChecklistItem list \<Rightarrow> Condition" where
  "assessCondition damages items =
     firstMatch
       [(anyDamage ''critical'' damages, Damaged),
        (anyDamage ''major'' damages, Poor),
        (\<exists>i \<in> set items. item_status i = Fail \<and> item_severity i = Some ''critical'', Poor),
        (3 < failCount items, Fair),
        (anyDamage ''moderate'' damages \<or> anyItem NeedsAttention items, Fair),
        (anyDamage ''minor'' damages \<or> anyItem Fail items, Good)]
       Excellent"

subsection \<open>validateOdometerReading\<close>

text \<open>
  \<^verbatim>\<open>getDoc(doc(db, 'vehicles', vehicleId))\<close> either rejects (the \<^verbatim>\<open>catch\<close> branch), or
  gives a snapshot that does not exist, or one that exists and carries the vehicle data.
  Of the data only \<^verbatim>\<open>currentOdometer\<close> is read; it is untyped there and may be
  \<^verbatim>\<open>undefined\<close>.  Readings are integers.
\<close>

record VehicleData =
  data_currentOdometer :: "int option"

datatype DocumentSnapshot = GetDocRejected | NotExists | Exists VehicleData

type_synonym Firestore = "string \<Rightarrow> DocumentSnapshot"

record ValidationResult =
  isValid :: bool
  errors :: "string list"
  warnings :: "string list"

text \<open>\<^verbatim>\<open>x || 0\<close> on an optional number: \<^verbatim>\<open>undefined\<close> and \<^verbatim>\<open>0\<close> are falsy.\<close>

definition orZero :: "int option \<Rightarrow> int" where
  "orZero x = (case x of None \<Rightarrow> 0 | Some n \<Rightarrow> if n = 0 then 0 else n)"

definition lowerReadingError :: "int \<Rightarrow> string" where
  "lowerReadingError currentOdometer' =
     ''Reading cannot be lower than current reading ('' @ toString currentOdometer' @ '' km)''"

definition highIncreaseWarning :: "int \<Rightarrow> string" where
  "highIncreaseWarning difference =
     ''Unusually high mileage increase detected ('' @ toString difference @ '' km)''"

definition validateOdometerReading :: "Firestore \<Rightarrow> string \<Rightarrow> int \<Rightarrow> ValidationResult" where
  "validateOdometerReading db vehicleId' newReading =
     (case db vehicleId' of
        GetDocRejected \<Rightarrow>
          \<lparr>isValid = False, errors = [''Failed to validate odometer reading''], warnings = []\<rparr>
      | NotExists \<Rightarrow>
          \<lparr>isValid = False, errors = [''Vehicle not found''], warnings = []\<rparr>
      | Exists vehicleData \<Rightarrow>
          let currentOdometer' = orZero (data_currentOdometer vehicleData);
              errors' =
                (if newReading < currentOdometer'
                 then [] @ [lowerReadingError currentOdometer'] else []);
              difference = newReading - currentOdometer';
              warnings' =
                (if difference > 1000 then [] @ [highIncreaseWarning difference] else [])
          in \<lparr>isValid = (length errors' = 0), errors = errors', warnings = warnings'\<rparr>)"

subsection \<open>createDamageReport\<close>

text \<open>
  The identifier is built from \<^verbatim>\<open>Date.now()\<close> and nine characters of
  \<^verbatim>\<open>Math.random().toString(36)\<close>; both are inputs here (\<open>clock\<close>, \<open>suffix\<close>).
  The optional arguments are \<open>None\<close> when absent; \<^verbatim>\<open>description || ''\<close> and
  \<^verbatim>\<open>photos || []\<close> replace a missing one.
\<close>

definition createDamageReport ::
  "int \<Rightarrow> string \<Rightarrow> string \<Rightarrow> bool \<Rightarrow> string option \<Rightarrow> string option \<Rightarrow> string list option
   \<Rightarrow> DamageReport" where
  "createDamageReport clock suffix component' hasDamage' severity' description' photos' =
     \<lparr>dr_id = ''damage_'' @ toString clock @ ''_'' @ suffix,
      component = component',
      hasDamage = hasDamage',
      severity = severity',
      description = (case description' of None \<Rightarrow> [] | Some d \<Rightarrow> if d = [] then [] else d),
      photos = (case photos' of None \<Rightarrow> [] | Some ps \<Rightarrow> ps),
      annotations = [],
      estimatedCost = 0,
      repairRequired =
        (hasDamage' \<and> (severity' = Some ''major'' \<or> severity' = Some ''critical'')),
      reportedAt = clock\<rparr>"

section \<open>Vehicle service (src/services/VehicleService.ts)\<close>

text \<open>
  \<^verbatim>\<open>getNextServiceInfo\<close> reads two numeric fields of the vehicle.  The record is
  extensible: any object carrying the two fields can be passed, as with the structural
  types of the source.
\<close>

record Vehicle =
  nextServiceOdometer :: int
  currentOdometer :: int

record NextServiceInfo =
  kmUntilService :: int
  isOverdue :: bool
  daysUntilService :: int

definition getNextServiceInfo :: "'a Vehicle_scheme \<Rightarrow> NextServiceInfo" where
  "getNextServiceInfo vehicle =
     (let kmUntilService' = nextServiceOdometer vehicle - currentOdometer vehicle;
          isOverdue' = (kmUntilService' \<le> 0);
          avgDailyKm = (50 :: int);
          daysUntilService' =
            (if isOverdue' then 0
             else \<lceil>real_of_int kmUntilService' / real_of_int avgDailyKm\<rceil>)
      in \<lparr>kmUntilService = kmUntilService',
          isOverdue = isOverdue',
          daysUntilService = daysUntilService'\<rparr>)"

section \<open>Checkout and checkin pages (src/pages/VehicleCheckout.tsx, VehicleCheckin.tsx)\<close>

subsection \<open>Numbers read from form fields\<close>

text \<open>
  The form fields are strings and are read with \<^verbatim>\<open>parseInt\<close>, which gives
  \<^verbatim>\<open>NaN\<close> when the string does not start with a number.  A number is therefore an
  integer or \<open>NaN\<close>; every comparison with \<open>NaN\<close> is false and every difference
  with \<open>NaN\<close> is \<open>NaN\<close>.
\<close>

datatype number = NaN | Num int

fun js_less :: "number \<Rightarrow> number \<Rightarrow> bool" where
  "js_less (Num a) (Num b) = (a < b)"
| "js_less _ _ = False"

fun js_minus :: "number \<Rightarrow> number \<Rightarrow> number" where
  "js_minus (Num a) (Num b) = Num (a - b)"
| "js_minus _ _ = NaN"

text \<open>\<^verbatim>\<open>x || d\<close> on a number: \<^verbatim>\<open>NaN\<close> and \<^verbatim>\<open>0\<close> are falsy.\<close>

fun js_or :: "number \<Rightarrow> number \<Rightarrow> number" where
  "js_or NaN d = d"
| "js_or (Num n) d = (if n = 0 then d else Num n)"

text \<open>
  \<^verbatim>\<open>parseInt(string)\<close> without a radix: leading white space is skipped, a sign is
  read, a prefix \<^verbatim>\<open>0x\<close> or \<^verbatim>\<open>0X\<close> selects radix 16 (radix 10 otherwise), and the longest
  run of digits of that radix is the value; no digit at all gives \<^verbatim>\<open>NaN\<close>.
  Characters are bytes here, so the white space is the ASCII white space, and the value is
  the exact integer (no rounding of values beyond 53 bits).
\<close>

definition isWhiteSpace :: "char \<Rightarrow> bool" where
  "isWhiteSpace c = (of_char c \<in> {9, 10, 11, 12, 13, 32 :: nat})"

definition digitOf :: "char \<Rightarrow> nat option" where
  "digitOf c =
     (let n = (of_char c :: nat) in
      if 48 \<le> n \<and> n \<le> 57 then Some (n - 48)
      else if 97 \<le> n \<and> n \<le> 122 then Some (n - 87)
      else if 65 \<le> n \<and> n \<le> 90 then Some (n - 55)
      else None)"

fun radixDigits :: "nat \<Rightarrow> string \<Rightarrow> nat list" where
  "radixDigits R [] = []"
| "radixDigits R (c # cs) =
     (case digitOf c of
        None \<Rightarrow> []
      | Some d \<Rightarrow> if d < R then d # radixDigits R cs else [])"

definition radixValue :: "nat \<Rightarrow> nat list \<Rightarrow> nat" where
  "radixValue R ds = foldl (\<lambda>acc d. acc * R + d) 0 ds"

definition parseInt :: "string \<Rightarrow> number" where
  "parseInt inputString =
     (let S = dropWhile isWhiteSpace inputString;
          (sign, S1) =
            (case S of
               [] \<Rightarrow> (1 :: int, S)
             | c # rest \<Rightarrow>
                 if c = CHR ''-'' then (- 1, rest)
                 else if c = CHR ''+'' then (1, rest)
                 else (1, S));
          (R, S2) =
            (case S1 of
               a # b # rest \<Rightarrow>
                 if a = CHR ''0'' \<and> (b = CHR ''x'' \<or> b = CHR ''X'') then (16 :: nat, rest)
                 else (10, S1)
             | _ \<Rightarrow> (10, S1));
          Z = radixDigits R S2
      in if Z = [] then NaN else Num (sign * int (radixValue R Z)))"

subsection \<open>The record store\<close>

text \<open>
  The pages reach three collections through \<^verbatim>\<open>lumi.entities\<close>: vehicles, vehicle
  assignments and vehicle inspections.  The records carry the fields that the two handlers
  read or write.  A vehicle is held in the page as an untyped object; it extends the
  \<open>Vehicle\<close> record, so that the service computation applies to it as well.
  Fields that exist only after a checkin are optional.
\<close>

record PageVehicle = Vehicle +
  v_id :: string
  v_vehicleId :: string
  v_status :: string
  v_currentDriverId :: "string option"
  v_currentMileage :: number
  v_fuelLevel :: number
  v_updatedAt :: "string option"

record Assignment =
  a_id :: string
  a_vehicleId :: string
  a_driverId :: string
  a_assignmentType :: string
  a_assignmentDate :: string
  a_startingMileage :: number
  a_fuelLevelStart :: number
  a_destination :: string
  a_tripPurpose :: string
  a_estimatedReturnDate :: string
  a_voiceNotes :: string
  a_digitalSignature :: string
  a_status :: string
  a_creator :: string
  a_endingMileage :: "number option"
  a_fuelLevelEnd :: "number option"
  a_returnDate :: "string option"
  a_vehicleCondition :: "Condition option"
  a_damageReported :: "bool option"
  a_damageDescription :: "string option"
  a_tripNotes :: "string option"
  a_returnSignature :: "string option"
  a_totalMileage :: "number option"
  a_updatedAt :: "string option"

record Inspection =
  i_vehicleId :: string
  i_inspectionType :: string
  i_inspectionDate :: string
  i_inspectorId :: string
  i_mileageAtInspection :: number
  i_fuelLevel :: number
  i_overallCondition :: Condition
  i_damageReported :: bool
  i_notes :: string
  i_creator :: string

record Store =
  vehicles :: "PageVehicle list"
  vehicle_assignments :: "Assignment list"
  vehicle_inspections :: "Inspection list"

text \<open>
  \<^verbatim>\<open>update(id, patch)\<close> patches the record stored under the identifier; when there is
  none the call fails (\<open>None\<close>), which the handlers catch.  \<^verbatim>\<open>create\<close> appends the
  new record.
\<close>

definition updateById ::
  "('r \<Rightarrow> string) \<Rightarrow> string \<Rightarrow> ('r \<Rightarrow> 'r) \<Rightarrow> 'r list \<Rightarrow> 'r list option" where
  "updateById key i patch rs =
     (if list_ex (\<lambda>r. key r = i) rs
      then Some (map (\<lambda>r. if key r = i then patch r else r) rs)
      else None)"

text \<open>
  What a handler needs from outside: the current time as an ISO string, the conversion of
  a date string to an ISO string (\<open>None\<close> when \<^verbatim>\<open>toISOString\<close> throws on an invalid
  date), and the identifier the store gives to a created assignment.
\<close>

record Runtime =
  rt_now :: string
  rt_toISOString :: "string \<Rightarrow> string option"
  rt_newId :: string

datatype Toast = ToastError string | ToastSuccess string

subsection \<open>handleCheckout and the VehicleCheckout component\<close>

record CheckoutPage =
  co_loading :: bool
  co_vehicle :: "PageVehicle option"
  co_selectedDriverId :: string
  co_startingMileage :: string
  co_fuelLevel :: string
  co_destination :: string
  co_tripPurpose :: string
  co_estimatedReturn :: string
  co_voiceNotes :: string
  co_signature :: string
  co_submitting :: bool

definition handleCheckout :: "Runtime \<Rightarrow> CheckoutPage \<Rightarrow> Store \<Rightarrow> Toast \<times> Store" where
  "handleCheckout rt p st =
     (if co_selectedDriverId p = [] \<or> co_startingMileage p = [] \<or>
         co_destination p = [] \<or> co_tripPurpose p = []
      then (ToastError ''Please fill in all required fields'', st)
      else if co_signature p = []
      then (ToastError ''Digital signature is required'', st)
      else
        case co_vehicle p of
          None \<Rightarrow> (ToastError ''Failed to check out vehicle'', st)
        | Some vehicle \<Rightarrow>
            (case (if co_estimatedReturn p \<noteq> []
                   then rt_toISOString rt (co_estimatedReturn p) else Some []) of
               None \<Rightarrow> (ToastError ''Failed to check out vehicle'', st)
             | Some estimatedReturnDate \<Rightarrow>
                 (let assignmentData =
                       \<lparr>a_id = rt_newId rt,
                        a_vehicleId = v_vehicleId vehicle,
                        a_driverId = co_selectedDriverId p,
                        a_assignmentType = ''checkout'',
                        a_assignmentDate = rt_now rt,
                        a_startingMileage = parseInt (co_startingMileage p),
                        a_fuelLevelStart = parseInt (co_fuelLevel p),
                        a_destination = co_destination p,
                        a_tripPurpose = co_tripPurpose p,
                        a_estimatedReturnDate = estimatedReturnDate,
                        a_voiceNotes = co_voiceNotes p,
                        a_digitalSignature = co_signature p,
                        a_status = ''active'',
                        a_creator = ''current_user'',
                        a_endingMileage = None,
                        a_fuelLevelEnd = None,
                        a_returnDate = None,
                        a_vehicleCondition = None,
                        a_damageReported = None,
                        a_damageDescription = None,
                        a_tripNotes = None,
                        a_returnSignature = None,
                        a_totalMileage = None,
                        a_updatedAt = None\<rparr>;
                     st1 = st\<lparr>vehicle_assignments := vehicle_assignments st @ [assignmentData]\<rparr>
                 in
                 (case updateById v_id (v_id vehicle)
                        (\<lambda>v. v\<lparr>v_status := ''in_use'',
                                v_currentDriverId := Some (co_selectedDriverId p),
                                v_currentMileage := parseInt (co_startingMileage p),
                                v_fuelLevel := parseInt (co_fuelLevel p),
                                v_updatedAt := Some (rt_now rt)\<rparr>)
                        (vehicles st1) of
                   None \<Rightarrow> (ToastError ''Failed to check out vehicle'', st1)
                 | Some vs \<Rightarrow>
                     (ToastSuccess ''Vehicle checked out successfully'', st1\<lparr>vehicles := vs\<rparr>)))))"

text \<open>
  What the component renders: the spinner while loading, a "Vehicle Not Found" screen
  without a vehicle, a "Vehicle Not Available" screen (naming the status) for a vehicle
  whose status is not \<^verbatim>\<open>'available'\<close>, and the form otherwise.  Only the form has the
  submit button; the flag says whether the button is disabled.
\<close>

datatype CheckoutScreen =
  LoadingSpinner | VehicleNotFound | VehicleNotAvailable string | CheckoutForm bool

definition VehicleCheckout :: "CheckoutPage \<Rightarrow> CheckoutScreen" where
  "VehicleCheckout p =
     (if co_loading p then LoadingSpinner
      else case co_vehicle p of
        None \<Rightarrow> VehicleNotFound
      | Some vehicle \<Rightarrow>
          if v_status vehicle \<noteq> ''available'' then VehicleNotAvailable (v_status vehicle)
          else CheckoutForm
                 (co_submitting p \<or> co_selectedDriverId p = [] \<or> co_startingMileage p = [] \<or>
                  co_destination p = [] \<or> co_tripPurpose p = [] \<or> co_signature p = []))"

text \<open>
  A checkout attempt is a click on the submit button: \<open>handleCheckout\<close> runs when the
  form is on screen with the button enabled; on every other screen nothing runs and the
  store stays as it is.
\<close>

datatype CheckoutOutcome = Blocked CheckoutScreen | Submitted Toast

definition checkoutAttempt ::
  "Runtime \<Rightarrow> CheckoutPage \<Rightarrow> Store \<Rightarrow> CheckoutOutcome \<times> Store" where
  "checkoutAttempt rt p st =
     (case VehicleCheckout p of
        CheckoutForm False \<Rightarrow>
          (let (toast, st') = handleCheckout rt p st in (Submitted toast, st'))
      | CheckoutForm True \<Rightarrow> (Blocked (CheckoutForm True), st)
      | LoadingSpinner \<Rightarrow> (Blocked LoadingSpinner, st)
      | VehicleNotFound \<Rightarrow> (Blocked VehicleNotFound, st)
      | VehicleNotAvailable s \<Rightarrow> (Blocked (VehicleNotAvailable s), st))"

subsection \<open>handleCheckin\<close>

record CheckinPage =
  ci_vehicle :: "PageVehicle option"
  ci_currentAssignment :: "Assignment option"
  ci_endingMileage :: string
  ci_fuelLevel :: string
  ci_vehicleCondition :: Condition
  ci_damageReported :: bool
  ci_damageDescription :: string
  ci_tripNotes :: string
  ci_signature :: string

definition handleCheckin :: "Runtime \<Rightarrow> CheckinPage \<Rightarrow> Store \<Rightarrow> Toast \<times> Store" where
  "handleCheckin rt p st =
     (if ci_endingMileage p = [] \<or> ci_signature p = []
      then (ToastError ''Please fill in all required fields'', st)
      else
        let endMileage = parseInt (ci_endingMileage p);
            startMileage =
              (case ci_currentAssignment p of
                 None \<Rightarrow> Num 0
               | Some a \<Rightarrow> js_or (a_startingMileage a) (Num 0))
        in
        if js_less endMileage startMileage
        then (ToastError ''Ending mileage cannot be less than starting mileage'', st)
        else
          case (case ci_currentAssignment p of
                  None \<Rightarrow> Some st
                | Some a \<Rightarrow>
                    map_option (\<lambda>as. st\<lparr>vehicle_assignments := as\<rparr>)
                      (updateById a_id (a_id a)
                         (\<lambda>x. x\<lparr>a_endingMileage := Some endMileage,
                                 a_fuelLevelEnd := Some (parseInt (ci_fuelLevel p)),
                                 a_returnDate := Some (rt_now rt),
                                 a_vehicleCondition := Some (ci_vehicleCondition p),
                                 a_damageReported := Some (ci_damageReported p),
                                 a_damageDescription := Some (ci_damageDescription p),
                                 a_tripNotes := Some (ci_tripNotes p),
                                 a_returnSignature := Some (ci_signature p),
                                 a_status := ''completed'',
                                 a_totalMileage := Some (js_minus endMileage startMileage),
                                 a_updatedAt := Some (rt_now rt)\<rparr>)
                         (vehicle_assignments st))) of
            None \<Rightarrow> (ToastError ''Failed to check in vehicle'', st)
          | Some st1 \<Rightarrow>
              (case ci_vehicle p of
                 None \<Rightarrow> (ToastError ''Failed to check in vehicle'', st1)
               | Some vehicle \<Rightarrow>
                   (case updateById v_id (v_id vehicle)
                           (\<lambda>v. v\<lparr>v_status := ''available'',
                                   v_currentDriverId := Some [],
                                   v_currentMileage := endMileage,
                                   v_fuelLevel := parseInt (ci_fuelLevel p),
                                   v_updatedAt := Some (rt_now rt)\<rparr>)
                           (vehicles st1) of
                      None \<Rightarrow> (ToastError ''Failed to check in vehicle'', st1)
                    | Some vs \<Rightarrow>
                        let st2 = st1\<lparr>vehicles := vs\<rparr>;
                            st3 =
                              (if ci_damageReported p
                               then st2\<lparr>vehicle_inspections := vehicle_inspections st2 @
                                      [\<lparr>i_vehicleId = v_vehicleId vehicle,
                                        i_inspectionType = ''post_trip'',
                                        i_inspectionDate = rt_now rt,
                                        i_inspectorId =
                                          (case ci_currentAssignment p of
                                             None \<Rightarrow> ''unknown''
                                           | Some a \<Rightarrow>
                                               if a_driverId a = [] then ''unknown''
                                               else a_driverId a),
                                        i_mileageAtInspection = endMileage,
                                        i_fuelLevel = parseInt (ci_fuelLevel p),
                                        i_overallCondition = ci_vehicleCondition p,
                                        i_damageReported = True,
                                        i_notes = ci_damageDescription p,
                                        i_creator = ''current_user''\<rparr>]\<rparr>
                               else st2)
                        in (ToastSuccess ''Vehicle checked in successfully'', st3))))"

section \<open>Example data\<close>

text \<open>
  A vehicle that is available although its service is overdue (2000 km past the next
  service odometer), a filled-in checkout form for it, and a trip in progress with a
  checkin form that reports heavy damage.
\<close>

definition exampleRuntime :: Runtime where
  "exampleRuntime =
     \<lparr>rt_now = ''2024-05-01T08:00:00.000Z'',
      rt_toISOString = (\<lambda>s. Some s),
      rt_newId = ''assignment-2''\<rparr>"

definition overdueVehicle :: PageVehicle where
  "overdueVehicle =
     \<lparr>nextServiceOdometer = 50000,
      currentOdometer = 52000,
      v_id = ''vehicle-1'',
      v_vehicleId = ''AFG7557'',
      v_status = ''available'',
      v_currentDriverId = None,
      v_currentMileage = Num 52000,
      v_fuelLevel = Num 70,
      v_updatedAt = None\<rparr>"

definition checkoutPageFor :: "PageVehicle \<Rightarrow> CheckoutPage" where
  "checkoutPageFor vehicle =
     \<lparr>co_loading = False,
      co_vehicle = Some vehicle,
      co_selectedDriverId = ''D1'',
      co_startingMileage = ''52000'',
      co_fuelLevel = ''70'',
      co_destination = ''Depot'',
      co_tripPurpose = ''Delivery'',
      co_estimatedReturn = [],
      co_voiceNotes = [],
      co_signature = ''D1'',
      co_submitting = False\<rparr>"

definition storeWith :: "PageVehicle \<Rightarrow> Assignment list \<Rightarrow> Store" where
  "storeWith vehicle as =
     \<lparr>vehicles = [vehicle], vehicle_assignments = as, vehicle_inspections = []\<rparr>"

definition inUseVehicle :: PageVehicle where
  "inUseVehicle =
     \<lparr>nextServiceOdometer = 50000,
      currentOdometer = 45000,
      v_id = ''vehicle-2'',
      v_vehicleId = ''ABK2211'',
      v_status = ''in_use'',
      v_currentDriverId = Some ''D1'',
      v_currentMileage = Num 45000,
      v_fuelLevel = Num 70,
      v_updatedAt = None\<rparr>"

definition activeAssignment :: Assignment where
  "activeAssignment =
     \<lparr>a_id = ''assignment-1'',
      a_vehicleId = ''ABK2211'',
      a_driverId = ''D1'',
      a_assignmentType = ''checkout'',
      a_assignmentDate = ''2024-05-01T06:00:00.000Z'',
      a_startingMileage = Num 45000,
      a_fuelLevelStart = Num 70,
      a_destination = ''Depot'',
      a_tripPurpose = ''Delivery'',
      a_estimatedReturnDate = [],
      a_voiceNotes = [],
      a_digitalSignature = ''D1'',
      a_status = ''active'',
      a_creator = ''current_user'',
      a_endingMileage = None,
      a_fuelLevelEnd = None,
      a_returnDate = None,
      a_vehicleCondition = None,
      a_damageReported = None,
      a_damageDescription = None,
      a_tripNotes = None,
      a_returnSignature = None,
      a_totalMileage = None,
      a_updatedAt = None\<rparr>"

definition checkinPageWith :: "string \<Rightarrow> CheckinPage" where
  "checkinPageWith ending =
     \<lparr>ci_vehicle = Some inUseVehicle,
      ci_currentAssignment = Some activeAssignment,
      ci_endingMileage = ending,
      ci_fuelLevel = ''55'',
      ci_vehicleCondition = Poor,
      ci_damageReported = True,
      ci_damageDescription = ''critical damage: engine block cracked'',
      ci_tripNotes = [],
      ci_signature = ''D1''\<rparr>"

text \<open>
  The same checkin page before the assignment has been loaded into it, and a checkout page
  that still holds the copy of a vehicle from the time it was available, filled in for a
  second driver.
\<close>

definition unloadedCheckinPage :: "string \<Rightarrow> CheckinPage" where
  "unloadedCheckinPage ending = (checkinPageWith ending)\<lparr>ci_currentAssignment := None\<rparr>"

definition staleCheckoutPage :: CheckoutPage where
  "staleCheckoutPage =
     (checkoutPageFor (inUseVehicle\<lparr>v_status := ''available''\<rparr>))
       \<lparr>co_selectedDriverId := ''D2'',
        co_startingMileage := ''45000'',
        co_signature := ''D2''\<rparr>"

text \<open>A document store that knows one vehicle, at 45000 km.\<close>

definition exampleDb :: Firestore where
  "exampleDb vid =
     (if vid = ''vehicle-2'' then Exists \<lparr>data_currentOdometer = Some 45000\<rparr> else NotExists)"

section \<open>Properties of the condition assessor\<close>

lemma list_ex_severity: "list_ex (\<lambda>d. severity d = Some s) ds = anyDamage s ds"
  by (simp add: anyDamage_def list_ex_iff)

lemma list_ex_status: "list_ex (\<lambda>i. item_status i = st) items = anyItem st items"
  by (simp add: anyItem_def list_ex_iff)

lemma determinOverallCondition_eq_spec:
  "determinOverallCondition damages items = assessCondition damages items"
proof -
  have critical:
    "(0 < length [i \<leftarrow> [i \<leftarrow> items. item_status i = Fail]. item_severity i = Some ''critical''])
       = (\<exists>i \<in> set items. item_status i = Fail \<and> item_severity i = Some ''critical'')"
    by (auto simp: filter_empty_conv)
  have failed: "(0 < length [i \<leftarrow> items. item_status i = Fail]) = anyItem Fail items"
    by (auto simp: anyItem_def filter_empty_conv)
  show ?thesis
    unfolding determinOverallCondition_def assessCondition_def Let_def
      list_ex_severity list_ex_status failCount_def firstMatch.simps
    by (simp only: critical failed if_True if_False split: if_splits)
qed

text \<open>
  Claim C1.  For every list of damage reports and every checklist,
  \<open>determinOverallCondition\<close> returns what the reference rule table returns: critical
  damage gives damaged; otherwise major damage gives poor; otherwise a failed item of
  critical severity gives poor; otherwise more than three failed items give fair; otherwise
  moderate damage or an item needing attention gives fair; otherwise minor damage or a
  failed item gives good; otherwise excellent.  In particular a damage list holding both a
  critical and a minor severity is assessed as damaged, and empty inputs as excellent.
\<close>

theorem determinOverallCondition_refines_assessCondition:
  "determinOverallCondition damages items = assessCondition damages items
   \<and> ((\<exists>d \<in> set damages. severity d = Some ''critical'') \<and>
       (\<exists>d \<in> set damages. severity d = Some ''minor'')
       \<longrightarrow> determinOverallCondition damages items = Damaged)
   \<and> determinOverallCondition [] [] = Excellent"
proof (intro conjI impI)
  show "determinOverallCondition damages items = assessCondition damages items"
    by (rule determinOverallCondition_eq_spec)
next
  assume "(\<exists>d \<in> set damages. severity d = Some ''critical'') \<and>
          (\<exists>d \<in> set damages. severity d = Some ''minor'')"
  then have "list_ex (\<lambda>damage. severity damage = Some ''critical'') damages"
    by (simp add: list_ex_iff)
  then show "determinOverallCondition damages items = Damaged"
    by (simp add: determinOverallCondition_def)
next
  show "determinOverallCondition [] [] = Excellent"
    by (simp add: determinOverallCondition_def)
qed

theorem determinOverallCondition_refines_assessCondition_witness:
  "determinOverallCondition
     [createDamageReport 1700000000000 ''k3j9x0q2a'' ''door'' True (Some ''minor'') None None,
      createDamageReport 1700000000001 ''b7c1d2e3f'' ''engine'' True (Some ''critical'') None None]
     [\<lparr>item_status = Fail, item_severity = None\<rparr>]
   = Damaged
   \<and> assessCondition
     [createDamageReport 1700000000000 ''k3j9x0q2a'' ''door'' True (Some ''minor'') None None,
      createDamageReport 1700000000001 ''b7c1d2e3f'' ''engine'' True (Some ''critical'') None None]
     [\<lparr>item_status = Fail, item_severity = None\<rparr>]
   = Damaged"
proof -
  let ?ds =
    "[createDamageReport 1700000000000 ''k3j9x0q2a'' ''door'' True (Some ''minor'') None None,
      createDamageReport 1700000000001 ''b7c1d2e3f'' ''engine'' True (Some ''critical'') None None]"
  let ?cs = "[\<lparr>item_status = Fail, item_severity = None\<rparr>]"
  have both: "(\<exists>d \<in> set ?ds. severity d = Some ''critical'') \<and>
              (\<exists>d \<in> set ?ds. severity d = Some ''minor'')"
    by (simp add: createDamageReport_def)
  note c1 = determinOverallCondition_refines_assessCondition [of ?ds ?cs]
  from c1 both have damaged: "determinOverallCondition ?ds ?cs = Damaged"
    by blast
  from c1 have "assessCondition ?ds ?cs = determinOverallCondition ?ds ?cs"
    by simp
  with damaged show ?thesis
    by simp
qed

section \<open>Properties of the odometer validation\<close>

lemma validateOdometerReading_Exists:
  assumes "db vid = Exists vd"
  shows "validateOdometerReading db vid newReading =
           \<lparr>isValid = \<not> newReading < orZero (data_currentOdometer vd),
            errors = (if newReading < orZero (data_currentOdometer vd)
                      then [lowerReadingError (orZero (data_currentOdometer vd))] else []),
            warnings = (if newReading - orZero (data_currentOdometer vd) > 1000
                        then [highIncreaseWarning (newReading - orZero (data_currentOdometer vd))]
                        else [])\<rparr>"
  using assms by (simp add: validateOdometerReading_def Let_def)

lemma orZero_Some [simp]: "orZero (Some n) = n"
  by (simp add: orZero_def)

lemma orZero_None [simp]: "orZero None = 0"
  by (simp add: orZero_def)

lemma exampleDb_vehicle [simp]:
  "exampleDb ''vehicle-2'' = Exists \<lparr>data_currentOdometer = Some 45000\<rparr>"
  by (simp add: exampleDb_def)

text \<open>
  Claim C2, as amended.  For an existing vehicle whose current odometer is
  \<open>previousReading\<close> (zero when the field is missing), every new reading strictly above
  \<open>previousReading + 1000\<close> gives exactly the high-increase warning, no error, and a
  valid result.
\<close>

theorem validateOdometerReading_warns_above_1000:
  assumes "db vid = Exists vd"
    and "orZero (data_currentOdometer vd) = previousReading"
    and "newReading > previousReading + 1000"
  shows "warnings (validateOdometerReading db vid newReading)
           = [highIncreaseWarning (newReading - previousReading)]
         \<and> warnings (validateOdometerReading db vid newReading) \<noteq> []
         \<and> errors (validateOdometerReading db vid newReading) = []
         \<and> isValid (validateOdometerReading db vid newReading)"
  using assms by (simp add: validateOdometerReading_Exists)

theorem validateOdometerReading_warns_above_1000_witness:
  "warnings (validateOdometerReading exampleDb ''vehicle-2'' 47000)
     = [highIncreaseWarning 2000]
   \<and> isValid (validateOdometerReading exampleDb ''vehicle-2'' 47000)"
  using validateOdometerReading_warns_above_1000
    [of exampleDb "''vehicle-2''"
        "\<lparr>data_currentOdometer = Some 45000\<rparr>" 45000 47000]
  by simp

text \<open>
  The claim as stated fails at the boundary: a reading of exactly
  \<open>previousReading + 1000\<close> gives no warning.
\<close>

theorem validateOdometerReading_no_warning_at_1000:
  "(46000 :: int) \<ge> 45000 + 1000
   \<and> warnings (validateOdometerReading exampleDb ''vehicle-2'' 46000)
       = []"
  by (simp add: validateOdometerReading_Exists)

text \<open>
  Claim C5.  For an existing vehicle whose current odometer is \<open>previousReading\<close>, every
  new reading below it gives an invalid result whose error list is not empty and holds
  the reading-cannot-be-lower error; there is no warning, so the result is never a
  warning-only success.
\<close>

theorem validateOdometerReading_rejects_lower:
  assumes "db vid = Exists vd"
    and "orZero (data_currentOdometer vd) = previousReading"
    and "newReading < previousReading"
  shows "isValid (validateOdometerReading db vid newReading) = False
         \<and> errors (validateOdometerReading db vid newReading) \<noteq> []
         \<and> lowerReadingError previousReading \<in> set (errors (validateOdometerReading db vid newReading))
         \<and> warnings (validateOdometerReading db vid newReading) = []"
  using assms by (simp add: validateOdometerReading_Exists)

theorem validateOdometerReading_rejects_lower_witness:
  "isValid (validateOdometerReading exampleDb ''vehicle-2'' 44950)
     = False
   \<and> errors (validateOdometerReading exampleDb ''vehicle-2'' 44950)
     = [lowerReadingError 45000]"
  using validateOdometerReading_rejects_lower
    [of exampleDb "''vehicle-2''"
        "\<lparr>data_currentOdometer = Some 45000\<rparr>" 45000 44950]
  by (simp add: validateOdometerReading_Exists)

text \<open>
  Claim C9.  Whatever the store answers and whatever the new reading, the result never
  has both an error and a warning: one of the two lists is empty.
\<close>

theorem validateOdometerReading_errors_warnings_exclusive:
  "\<not> (errors (validateOdometerReading db vid newReading) \<noteq> [] \<and>
       warnings (validateOdometerReading db vid newReading) \<noteq> [])"
proof (cases "db vid")
  case GetDocRejected
  then show ?thesis by (simp add: validateOdometerReading_def)
next
  case NotExists
  then show ?thesis by (simp add: validateOdometerReading_def)
next
  case (Exists vd)
  then show ?thesis by (simp add: validateOdometerReading_Exists)
qed

theorem validateOdometerReading_errors_warnings_exclusive_witness:
  "errors (validateOdometerReading exampleDb ''vehicle-2'' 44950) \<noteq> []
   \<and> warnings (validateOdometerReading exampleDb ''vehicle-2'' 44950) = []"
  using validateOdometerReading_errors_warnings_exclusive
    [of exampleDb "''vehicle-2''" 44950]
  by (simp add: validateOdometerReading_Exists)

section \<open>Properties of the damage report\<close>

text \<open>
  Claim C10.  The \<open>repairRequired\<close> flag of a created damage report is true exactly when
  \<open>hasDamage\<close> is true and the severity is major or critical; without a severity, with
  severity minor or moderate, and without damage it is false.
\<close>

theorem createDamageReport_repairRequired:
  "repairRequired (createDamageReport clock suffix c h sev d ps)
     = (h \<and> (sev = Some ''major'' \<or> sev = Some ''critical''))
   \<and> (sev = None \<or> sev = Some ''minor'' \<or> sev = Some ''moderate'' \<or> \<not> h
        \<longrightarrow> \<not> repairRequired (createDamageReport clock suffix c h sev d ps))"
  by (auto simp: createDamageReport_def)

theorem createDamageReport_repairRequired_witness:
  "repairRequired (createDamageReport 1700000000000 ''k3j9x0q2a'' ''bumper'' True (Some ''major'') None None)
   \<and> \<not> repairRequired
         (createDamageReport 1700000000000 ''k3j9x0q2a'' ''bumper'' True (Some ''minor'') None None)"
  using createDamageReport_repairRequired
    [of 1700000000000 "''k3j9x0q2a''" "''bumper''" True "Some ''major''" None None]
    createDamageReport_repairRequired
    [of 1700000000000 "''k3j9x0q2a''" "''bumper''" True "Some ''minor''" None None]
  by simp

section \<open>Properties of the service interval\<close>

lemma days_bounds:
  fixes km :: int
  shows "km \<le> 50 * \<lceil>real_of_int km / 50\<rceil> \<and> 50 * (\<lceil>real_of_int km / 50\<rceil> - 1) < km"
proof -
  define c where "c = \<lceil>real_of_int km / 50\<rceil>"
  have "real_of_int km / 50 \<le> real_of_int c"
    unfolding c_def by (rule le_of_int_ceiling)
  then have "real_of_int km \<le> real_of_int (50 * c)"
    by simp
  then have a: "km \<le> 50 * c"
    by (simp only: of_int_le_iff)
  have "real_of_int c - 1 < real_of_int km / 50"
    unfolding c_def by linarith
  then have "real_of_int (50 * (c - 1)) < real_of_int km"
    by simp
  then have b: "50 * (c - 1) < km"
    by (simp only: of_int_less_iff)
  from a b show ?thesis
    unfolding c_def by simp
qed

text \<open>
  Claim C8.  For every vehicle the service information has
  \<open>kmUntilService = nextServiceOdometer - currentOdometer\<close>, is overdue exactly when that
  distance is at most zero, and estimates zero days when overdue and the distance divided
  by the average daily distance (50), rounded up, otherwise: the least number of days whose
  distance covers what remains.  When the current odometer equals the next service odometer
  the vehicle is overdue with distance zero and zero days.
\<close>

theorem getNextServiceInfo_values:
  "kmUntilService (getNextServiceInfo v) = nextServiceOdometer v - currentOdometer v
   \<and> isOverdue (getNextServiceInfo v) = (kmUntilService (getNextServiceInfo v) \<le> 0)
   \<and> daysUntilService (getNextServiceInfo v)
       = (if isOverdue (getNextServiceInfo v) then 0
          else \<lceil>real_of_int (kmUntilService (getNextServiceInfo v)) / 50\<rceil>)
   \<and> (\<not> isOverdue (getNextServiceInfo v) \<longrightarrow>
        kmUntilService (getNextServiceInfo v) \<le> 50 * daysUntilService (getNextServiceInfo v) \<and>
        50 * (daysUntilService (getNextServiceInfo v) - 1) < kmUntilService (getNextServiceInfo v))
   \<and> (currentOdometer v = nextServiceOdometer v \<longrightarrow>
        isOverdue (getNextServiceInfo v) \<and> kmUntilService (getNextServiceInfo v) = 0 \<and>
        daysUntilService (getNextServiceInfo v) = 0)"
  using days_bounds [of "nextServiceOdometer v - currentOdometer v"]
  by (simp add: getNextServiceInfo_def Let_def)

theorem getNextServiceInfo_values_witness:
  "getNextServiceInfo \<lparr>nextServiceOdometer = 50000, currentOdometer = 50000\<rparr>
     = \<lparr>kmUntilService = 0, isOverdue = True, daysUntilService = 0\<rparr>
   \<and> daysUntilService (getNextServiceInfo \<lparr>nextServiceOdometer = 50120, currentOdometer = 50000\<rparr>) = 3"
  using getNextServiceInfo_values [of "\<lparr>nextServiceOdometer = 50000, currentOdometer = 50000\<rparr>"]
    getNextServiceInfo_values [of "\<lparr>nextServiceOdometer = 50120, currentOdometer = 50000\<rparr>"]
  by (simp add: getNextServiceInfo_def Let_def)

section \<open>Properties of checkout and checkin\<close>

subsection \<open>Numbers and store updates\<close>

lemma parseInt_Nil [simp]: "parseInt [] = NaN"
  by (simp add: parseInt_def)

lemma parseInt_examples:
  "parseInt ''45000'' = Num 45000"
  "parseInt ''45120'' = Num 45120"
  "parseInt ''44999'' = Num 44999"
  "parseInt ''52000'' = Num 52000"
  "parseInt ''70'' = Num 70"
  "parseInt ''55'' = Num 55"
  by (simp_all add: parseInt_def isWhiteSpace_def digitOf_def radixValue_def)

lemma parseInt_fraction: "parseInt ''.5'' = NaN"
  by (simp add: parseInt_def isWhiteSpace_def digitOf_def)

lemma js_or_Num_zero [simp]: "js_or (Num s) (Num 0) = Num s"
  by simp

lemma updateById_Some_iff:
  "updateById key i patch rs = Some rs' \<longleftrightarrow>
     (\<exists>r \<in> set rs. key r = i) \<and> rs' = map (\<lambda>r. if key r = i then patch r else r) rs"
  by (auto simp: updateById_def list_ex_iff)

lemma updateById_present:
  "\<exists>r \<in> set rs. key r = i \<Longrightarrow>
     updateById key i patch rs = Some (map (\<lambda>r. if key r = i then patch r else r) rs)"
  by (simp add: updateById_Some_iff)

subsection \<open>Checkin\<close>

text \<open>What a successful checkin has done to the store.\<close>

lemma handleCheckin_success:
  assumes "handleCheckin rt p st = (ToastSuccess msg, st')"
  shows "\<exists>vehicle. ci_vehicle p = Some vehicle
           \<and> (\<exists>v \<in> set (vehicles st). v_id v = v_id vehicle)
           \<and> vehicles st' =
               map (\<lambda>v. if v_id v = v_id vehicle
                         then v\<lparr>v_status := ''available'',
                                v_currentDriverId := Some [],
                                v_currentMileage := parseInt (ci_endingMileage p),
                                v_fuelLevel := parseInt (ci_fuelLevel p),
                                v_updatedAt := Some (rt_now rt)\<rparr>
                         else v)
                 (vehicles st)"
  using assms
  by (auto simp: handleCheckin_def Let_def updateById_Some_iff
      split: if_splits option.splits)

lemma handleCheckin_success_assignment:
  assumes "handleCheckin rt p st = (ToastSuccess msg, st')"
    and "ci_currentAssignment p = Some a"
  shows "\<not> js_less (parseInt (ci_endingMileage p)) (js_or (a_startingMileage a) (Num 0))
         \<and> (\<exists>x \<in> set (vehicle_assignments st). a_id x = a_id a)
         \<and> vehicle_assignments st' =
             map (\<lambda>x. if a_id x = a_id a
                       then x\<lparr>a_endingMileage := Some (parseInt (ci_endingMileage p)),
                              a_fuelLevelEnd := Some (parseInt (ci_fuelLevel p)),
                              a_returnDate := Some (rt_now rt),
                              a_vehicleCondition := Some (ci_vehicleCondition p),
                              a_damageReported := Some (ci_damageReported p),
                              a_damageDescription := Some (ci_damageDescription p),
                              a_tripNotes := Some (ci_tripNotes p),
                              a_returnSignature := Some (ci_signature p),
                              a_status := ''completed'',
                              a_totalMileage :=
                                Some (js_minus (parseInt (ci_endingMileage p))
                                        (js_or (a_startingMileage a) (Num 0))),
                              a_updatedAt := Some (rt_now rt)\<rparr>
                       else x)
               (vehicle_assignments st)"
  using assms
  by (auto simp: handleCheckin_def Let_def updateById_Some_iff
      split: if_splits option.splits)

lemma handleCheckin_accepts:
  assumes "ci_endingMileage p \<noteq> []" and "ci_signature p \<noteq> []"
    and "ci_currentAssignment p = Some a"
    and "\<not> js_less (parseInt (ci_endingMileage p)) (js_or (a_startingMileage a) (Num 0))"
    and "\<exists>x \<in> set (vehicle_assignments st). a_id x = a_id a"
    and "ci_vehicle p = Some vehicle"
    and "\<exists>v \<in> set (vehicles st). v_id v = v_id vehicle"
  shows "fst (handleCheckin rt p st) = ToastSuccess ''Vehicle checked in successfully''"
  using assms
  by (simp add: handleCheckin_def Let_def updateById_present)

lemma handleCheckin_rejects:
  assumes "ci_currentAssignment p = Some a"
    and "js_less (parseInt (ci_endingMileage p)) (js_or (a_startingMileage a) (Num 0))"
  shows "handleCheckin rt p st =
           (ToastError (if ci_signature p = [] then ''Please fill in all required fields''
                        else ''Ending mileage cannot be less than starting mileage''), st)"
proof -
  from assms(2) have "parseInt (ci_endingMileage p) \<noteq> NaN"
    by (cases "parseInt (ci_endingMileage p)") simp_all
  then have "ci_endingMileage p \<noteq> []"
    by auto
  with assms show ?thesis
    by (simp add: handleCheckin_def Let_def)
qed

lemmas checkin_example_defs =
  handleCheckin_def exampleRuntime_def checkinPageWith_def storeWith_def inUseVehicle_def
  activeAssignment_def updateById_def parseInt_examples Let_def

text \<open>
  Claim C3, as amended.  After a successful checkin the vehicle record of the store has
  status \<^verbatim>\<open>'available'\<close>, whatever damage was reported; its current driver is cleared
  (the empty string), and its mileage and fuel level are the values read from the checkin
  form.
\<close>

theorem handleCheckin_vehicle_available:
  assumes "handleCheckin rt p st = (ToastSuccess msg, st')"
    and "ci_vehicle p = Some vehicle"
  shows "(\<exists>v \<in> set (vehicles st'). v_id v = v_id vehicle)
         \<and> (\<forall>v \<in> set (vehicles st'). v_id v = v_id vehicle \<longrightarrow>
               v_status v = ''available''
               \<and> v_currentDriverId v = Some []
               \<and> v_currentMileage v = parseInt (ci_endingMileage p)
               \<and> v_fuelLevel v = parseInt (ci_fuelLevel p))"
proof -
  from handleCheckin_success [OF assms(1)] assms(2)
  have present: "\<exists>v \<in> set (vehicles st). v_id v = v_id vehicle"
    and after: "vehicles st' =
               map (\<lambda>v. if v_id v = v_id vehicle
                         then v\<lparr>v_status := ''available'',
                                v_currentDriverId := Some [],
                                v_currentMileage := parseInt (ci_endingMileage p),
                                v_fuelLevel := parseInt (ci_fuelLevel p),
                                v_updatedAt := Some (rt_now rt)\<rparr>
                         else v)
                 (vehicles st)"
    by auto
  from present obtain v0 where v0: "v0 \<in> set (vehicles st)" "v_id v0 = v_id vehicle"
    by blast
  let ?done = "v0\<lparr>v_status := ''available'',
                   v_currentDriverId := Some [],
                   v_currentMileage := parseInt (ci_endingMileage p),
                   v_fuelLevel := parseInt (ci_fuelLevel p),
                   v_updatedAt := Some (rt_now rt)\<rparr>"
  from v0 have "?done \<in> set (vehicles st')"
    unfolding after by force
  moreover from v0 have "v_id ?done = v_id vehicle"
    by simp
  ultimately have stored: "\<exists>v \<in> set (vehicles st'). v_id v = v_id vehicle"
    by blast
  have "\<forall>v \<in> set (vehicles st'). v_id v = v_id vehicle \<longrightarrow>
               v_status v = ''available''
               \<and> v_currentDriverId v = Some []
               \<and> v_currentMileage v = parseInt (ci_endingMileage p)
               \<and> v_fuelLevel v = parseInt (ci_fuelLevel p)"
    unfolding after by auto
  with stored show ?thesis
    by simp
qed

theorem handleCheckin_vehicle_available_witness:
  "fst (handleCheckin exampleRuntime (checkinPageWith ''45120'')
          (storeWith inUseVehicle [activeAssignment]))
     = ToastSuccess ''Vehicle checked in successfully''
   \<and> map v_status (vehicles (snd (handleCheckin exampleRuntime (checkinPageWith ''45120'')
          (storeWith inUseVehicle [activeAssignment])))) = [''available'']
   \<and> map v_currentDriverId (vehicles (snd (handleCheckin exampleRuntime (checkinPageWith ''45120'')
          (storeWith inUseVehicle [activeAssignment])))) = [Some []]
   \<and> map v_currentMileage (vehicles (snd (handleCheckin exampleRuntime (checkinPageWith ''45120'')
          (storeWith inUseVehicle [activeAssignment])))) = [Num 45120]
   \<and> map v_fuelLevel (vehicles (snd (handleCheckin exampleRuntime (checkinPageWith ''45120'')
          (storeWith inUseVehicle [activeAssignment])))) = [Num 55]"
proof -
  let ?r = "handleCheckin exampleRuntime (checkinPageWith ''45120'')
              (storeWith inUseVehicle [activeAssignment])"
  have ok: "fst ?r = ToastSuccess ''Vehicle checked in successfully''"
    by (simp add: checkin_example_defs)
  then have run: "?r = (ToastSuccess ''Vehicle checked in successfully'', snd ?r)"
    by (simp add: prod_eq_iff)
  have veh: "ci_vehicle (checkinPageWith ''45120'') = Some inUseVehicle"
    by (simp add: checkinPageWith_def)
  have ids: "map v_id (vehicles (snd ?r)) = [v_id inUseVehicle]"
    by (simp add: checkin_example_defs)
  then obtain x where one: "vehicles (snd ?r) = [x]" and x: "v_id x = v_id inUseVehicle"
    by (auto simp: map_eq_Cons_conv)
  from handleCheckin_vehicle_available [OF run veh] one x
  have "v_status x = ''available'' \<and> v_currentDriverId x = Some []
        \<and> v_currentMileage x = parseInt (ci_endingMileage (checkinPageWith ''45120''))
        \<and> v_fuelLevel x = parseInt (ci_fuelLevel (checkinPageWith ''45120''))"
    by simp
  then have "v_status x = ''available'' \<and> v_currentDriverId x = Some []
        \<and> v_currentMileage x = Num 45120 \<and> v_fuelLevel x = Num 55"
    by (simp add: checkinPageWith_def parseInt_examples)
  with ok one show ?thesis
    by simp
qed

text \<open>
  The claim as stated fails: a checkin that reports damage described as critical, with the
  worst condition the form offers, still leaves the vehicle \<^verbatim>\<open>'available'\<close>, not
  \<^verbatim>\<open>'requires_attention'\<close>.
\<close>

theorem handleCheckin_critical_damage_still_available:
  "ci_damageReported (checkinPageWith ''45120'')
   \<and> ci_damageDescription (checkinPageWith ''45120'') = ''critical damage: engine block cracked''
   \<and> fst (handleCheckin exampleRuntime (checkinPageWith ''45120'')
          (storeWith inUseVehicle [activeAssignment]))
     = ToastSuccess ''Vehicle checked in successfully''
   \<and> map v_status (vehicles (snd (handleCheckin exampleRuntime (checkinPageWith ''45120'')
          (storeWith inUseVehicle [activeAssignment])))) = [''available'']
   \<and> map v_status (vehicles (snd (handleCheckin exampleRuntime (checkinPageWith ''45120'')
          (storeWith inUseVehicle [activeAssignment])))) \<noteq> [''requires_attention'']"
  by (simp add: checkin_example_defs)

text \<open>
  Claim C6, as amended.  For a checkin from a page that has loaded the active assignment,
  whose starting mileage is \<open>s\<close>, with an ending mileage field that reads as the integer
  \<open>e\<close>: when \<open>e\<close> is at least \<open>s\<close>, in particular when the two are equal, the checkin
  is accepted (the signature being present and the assignment and the vehicle being in the
  store); when \<open>e\<close> is below \<open>s\<close>, if only by one, it is rejected with an error and the
  store is left as it was; and every accepted checkin leaves the assignment with status
  \<^verbatim>\<open>'completed'\<close>, ending mileage \<open>e\<close> and total mileage \<open>e - s\<close>.
\<close>

theorem handleCheckin_odometer_rule:
  assumes "ci_currentAssignment p = Some a"
    and "a_startingMileage a = Num s"
    and "parseInt (ci_endingMileage p) = Num e"
  shows "(s \<le> e \<and> ci_signature p \<noteq> []
            \<and> (\<exists>x \<in> set (vehicle_assignments st). a_id x = a_id a)
            \<and> (\<exists>vehicle. ci_vehicle p = Some vehicle
                  \<and> (\<exists>v \<in> set (vehicles st). v_id v = v_id vehicle))
          \<longrightarrow> fst (handleCheckin rt p st) = ToastSuccess ''Vehicle checked in successfully'')
         \<and> (e < s \<longrightarrow>
               handleCheckin rt p st =
                 (ToastError (if ci_signature p = [] then ''Please fill in all required fields''
                              else ''Ending mileage cannot be less than starting mileage''), st))
         \<and> (\<forall>msg st'. handleCheckin rt p st = (ToastSuccess msg, st') \<longrightarrow>
               s \<le> e
               \<and> (\<exists>x \<in> set (vehicle_assignments st'). a_id x = a_id a)
               \<and> (\<forall>x \<in> set (vehicle_assignments st'). a_id x = a_id a \<longrightarrow>
                     a_status x = ''completed''
                     \<and> a_endingMileage x = Some (Num e)
                     \<and> a_totalMileage x = Some (Num (e - s))))"
proof (intro conjI impI allI)
  assume h: "s \<le> e \<and> ci_signature p \<noteq> []
            \<and> (\<exists>x \<in> set (vehicle_assignments st). a_id x = a_id a)
            \<and> (\<exists>vehicle. ci_vehicle p = Some vehicle
                  \<and> (\<exists>v \<in> set (vehicles st). v_id v = v_id vehicle))"
  then obtain vehicle where veh: "ci_vehicle p = Some vehicle"
    and stored: "\<exists>v \<in> set (vehicles st). v_id v = v_id vehicle"
    by blast
  from assms(3) have filled: "ci_endingMileage p \<noteq> []"
    by auto
  from h assms have ok: "\<not> js_less (parseInt (ci_endingMileage p)) (js_or (a_startingMileage a) (Num 0))"
    by simp
  from h have sig: "ci_signature p \<noteq> []"
    and held: "\<exists>x \<in> set (vehicle_assignments st). a_id x = a_id a"
    by simp_all
  show "fst (handleCheckin rt p st) = ToastSuccess ''Vehicle checked in successfully''"
    by (rule handleCheckin_accepts [OF filled sig assms(1) ok held veh stored])
next
  assume "e < s"
  with assms have "js_less (parseInt (ci_endingMileage p)) (js_or (a_startingMileage a) (Num 0))"
    by simp
  then show "handleCheckin rt p st =
                 (ToastError (if ci_signature p = [] then ''Please fill in all required fields''
                              else ''Ending mileage cannot be less than starting mileage''), st)"
    by (rule handleCheckin_rejects [OF assms(1)])
next
  fix msg st'
  assume run: "handleCheckin rt p st = (ToastSuccess msg, st')"
  note closed = handleCheckin_success_assignment [OF run assms(1)]
  from closed assms show "s \<le> e"
    by (simp split: if_splits)
  from closed obtain x0 where x0: "x0 \<in> set (vehicle_assignments st)" "a_id x0 = a_id a"
    by blast
  let ?patch = "\<lambda>x. x\<lparr>a_endingMileage := Some (parseInt (ci_endingMileage p)),
                              a_fuelLevelEnd := Some (parseInt (ci_fuelLevel p)),
                              a_returnDate := Some (rt_now rt),
                              a_vehicleCondition := Some (ci_vehicleCondition p),
                              a_damageReported := Some (ci_damageReported p),
                              a_damageDescription := Some (ci_damageDescription p),
                              a_tripNotes := Some (ci_tripNotes p),
                              a_returnSignature := Some (ci_signature p),
                              a_status := ''completed'',
                              a_totalMileage :=
                                Some (js_minus (parseInt (ci_endingMileage p))
                                        (js_or (a_startingMileage a) (Num 0))),
                              a_updatedAt := Some (rt_now rt)\<rparr>"
  from closed have after: "vehicle_assignments st' =
      map (\<lambda>x. if a_id x = a_id a then ?patch x else x) (vehicle_assignments st)"
    by simp
  from x0 have "?patch x0 \<in> set (vehicle_assignments st')"
    unfolding after by force
  moreover from x0 have "a_id (?patch x0) = a_id a"
    by simp
  ultimately show "\<exists>x \<in> set (vehicle_assignments st'). a_id x = a_id a"
    by blast
  show "\<forall>x \<in> set (vehicle_assignments st'). a_id x = a_id a \<longrightarrow>
                     a_status x = ''completed''
                     \<and> a_endingMileage x = Some (Num e)
                     \<and> a_totalMileage x = Some (Num (e - s))"
    unfolding after using assms(2,3) by auto
qed

theorem handleCheckin_odometer_rule_witness:
  "fst (handleCheckin exampleRuntime (checkinPageWith ''45000'')
          (storeWith inUseVehicle [activeAssignment]))
     = ToastSuccess ''Vehicle checked in successfully''
   \<and> map a_status (vehicle_assignments (snd (handleCheckin exampleRuntime
          (checkinPageWith ''45000'') (storeWith inUseVehicle [activeAssignment]))))
       = [''completed'']
   \<and> map a_totalMileage (vehicle_assignments (snd (handleCheckin exampleRuntime
          (checkinPageWith ''45000'') (storeWith inUseVehicle [activeAssignment]))))
       = [Some (Num 0)]
   \<and> handleCheckin exampleRuntime (checkinPageWith ''44999'')
          (storeWith inUseVehicle [activeAssignment])
       = (ToastError ''Ending mileage cannot be less than starting mileage'',
          storeWith inUseVehicle [activeAssignment])"
proof -
  let ?st = "storeWith inUseVehicle [activeAssignment]"
  let ?r = "handleCheckin exampleRuntime (checkinPageWith ''45000'') ?st"
  have cur: "\<And>t. ci_currentAssignment (checkinPageWith t) = Some activeAssignment"
    by (simp add: checkinPageWith_def)
  have start: "a_startingMileage activeAssignment = Num 45000"
    by (simp add: activeAssignment_def)
  have same: "parseInt (ci_endingMileage (checkinPageWith ''45000'')) = Num 45000"
    by (simp add: checkinPageWith_def parseInt_examples)
  have less: "parseInt (ci_endingMileage (checkinPageWith ''44999'')) = Num 44999"
    by (simp add: checkinPageWith_def parseInt_examples)
  note zero = handleCheckin_odometer_rule [OF cur start same, of ?st exampleRuntime]
  note short = handleCheckin_odometer_rule [OF cur start less, of ?st exampleRuntime]
  have pre: "(45000 :: int) \<le> 45000 \<and> ci_signature (checkinPageWith ''45000'') \<noteq> []
            \<and> (\<exists>x \<in> set (vehicle_assignments ?st). a_id x = a_id activeAssignment)
            \<and> (\<exists>vehicle. ci_vehicle (checkinPageWith ''45000'') = Some vehicle
                  \<and> (\<exists>v \<in> set (vehicles ?st). v_id v = v_id vehicle))"
    by (simp add: checkinPageWith_def storeWith_def)
  from zero pre have ok: "fst ?r = ToastSuccess ''Vehicle checked in successfully''"
    by blast
  then have run: "?r = (ToastSuccess ''Vehicle checked in successfully'', snd ?r)"
    by (simp add: prod_eq_iff)
  have ids: "map a_id (vehicle_assignments (snd ?r)) = [a_id activeAssignment]"
    by (simp add: checkin_example_defs)
  then obtain x where one: "vehicle_assignments (snd ?r) = [x]"
    and x: "a_id x = a_id activeAssignment"
    by (auto simp: map_eq_Cons_conv)
  from zero run have "\<forall>x \<in> set (vehicle_assignments (snd ?r)). a_id x = a_id activeAssignment \<longrightarrow>
                     a_status x = ''completed''
                     \<and> a_endingMileage x = Some (Num 45000)
                     \<and> a_totalMileage x = Some (Num (45000 - 45000))"
    by blast
  with one x have closed: "a_status x = ''completed'' \<and> a_totalMileage x = Some (Num 0)"
    by simp
  have "(44999 :: int) < 45000"
    by simp
  with short have "handleCheckin exampleRuntime (checkinPageWith ''44999'') ?st =
      (ToastError (if ci_signature (checkinPageWith ''44999'') = []
                   then ''Please fill in all required fields''
                   else ''Ending mileage cannot be less than starting mileage''), ?st)"
    by blast
  then have rejected: "handleCheckin exampleRuntime (checkinPageWith ''44999'') ?st =
      (ToastError ''Ending mileage cannot be less than starting mileage'', ?st)"
    by (simp add: checkinPageWith_def)
  from ok one closed rejected show ?thesis
    by simp
qed

text \<open>
  Stated for every checkin against an active assignment, the claim fails in two ways.
  A page that has not loaded the assignment compares the ending mileage with 0 and updates
  no assignment: 44999 against a stored starting mileage of 45000 is accepted, and the
  stored assignment stays active with no total mileage.  And an ending mileage field of
  \<^verbatim>\<open>.5\<close>, which \<^verbatim>\<open>parseInt\<close> reads as \<^verbatim>\<open>NaN\<close>, is accepted against 45000, and
  the total mileage written is \<^verbatim>\<open>NaN\<close>.
\<close>

theorem handleCheckin_lower_reading_accepted:
  "map a_status (vehicle_assignments (storeWith inUseVehicle [activeAssignment])) = [''active'']
   \<and> map a_startingMileage (vehicle_assignments (storeWith inUseVehicle [activeAssignment]))
       = [Num 45000]
   \<and> ci_currentAssignment (unloadedCheckinPage ''44999'') = None
   \<and> parseInt (ci_endingMileage (unloadedCheckinPage ''44999'')) = Num 44999
   \<and> fst (handleCheckin exampleRuntime (unloadedCheckinPage ''44999'')
            (storeWith inUseVehicle [activeAssignment]))
       = ToastSuccess ''Vehicle checked in successfully''
   \<and> map a_status (vehicle_assignments (snd (handleCheckin exampleRuntime
            (unloadedCheckinPage ''44999'') (storeWith inUseVehicle [activeAssignment]))))
       = [''active'']
   \<and> map a_totalMileage (vehicle_assignments (snd (handleCheckin exampleRuntime
            (unloadedCheckinPage ''44999'') (storeWith inUseVehicle [activeAssignment]))))
       = [None]
   \<and> ci_currentAssignment (checkinPageWith ''.5'') = Some activeAssignment
   \<and> parseInt (ci_endingMileage (checkinPageWith ''.5'')) = NaN
   \<and> fst (handleCheckin exampleRuntime (checkinPageWith ''.5'')
            (storeWith inUseVehicle [activeAssignment]))
       = ToastSuccess ''Vehicle checked in successfully''
   \<and> map a_status (vehicle_assignments (snd (handleCheckin exampleRuntime
            (checkinPageWith ''.5'') (storeWith inUseVehicle [activeAssignment]))))
       = [''completed'']
   \<and> map a_totalMileage (vehicle_assignments (snd (handleCheckin exampleRuntime
            (checkinPageWith ''.5'') (storeWith inUseVehicle [activeAssignment]))))
       = [Some NaN]"
  by (simp add: checkin_example_defs unloadedCheckinPage_def parseInt_fraction)

subsection \<open>Checkout\<close>

lemmas checkout_example_defs =
  checkoutAttempt_def VehicleCheckout_def handleCheckout_def exampleRuntime_def
  checkoutPageFor_def storeWith_def overdueVehicle_def inUseVehicle_def activeAssignment_def
  updateById_def parseInt_examples Let_def

text \<open>
  Claim C7, as amended.  For a vehicle that the checkout page holds with a status other
  than \<^verbatim>\<open>'available'\<close> (in particular \<^verbatim>\<open>'in_use'\<close>) the page never renders the
  checkout form, whatever the form fields hold, and once it has loaded it renders the
  "Vehicle Not Available" screen naming that status.  The status tested is the one of the
  page's copy of the vehicle: \<open>handleCheckout\<close> tests none, and its result is the same
  whatever status the copy carries.
\<close>

theorem VehicleCheckout_guards_page_copy:
  assumes "co_vehicle p = Some vehicle"
    and "v_status vehicle \<noteq> ''available''"
  shows "(\<forall>disabled. VehicleCheckout p \<noteq> CheckoutForm disabled)
         \<and> (\<not> co_loading p \<longrightarrow> VehicleCheckout p = VehicleNotAvailable (v_status vehicle))
         \<and> (\<forall>s. handleCheckout rt (p\<lparr>co_vehicle := Some (vehicle\<lparr>v_status := s\<rparr>)\<rparr>) st
                  = handleCheckout rt p st)"
proof (intro conjI allI impI)
  fix disabled
  from assms show "VehicleCheckout p \<noteq> CheckoutForm disabled"
    by (simp add: VehicleCheckout_def)
next
  assume "\<not> co_loading p"
  with assms show "VehicleCheckout p = VehicleNotAvailable (v_status vehicle)"
    by (simp add: VehicleCheckout_def)
next
  fix s
  from assms(1) show
    "handleCheckout rt (p\<lparr>co_vehicle := Some (vehicle\<lparr>v_status := s\<rparr>)\<rparr>) st
       = handleCheckout rt p st"
    by (simp add: handleCheckout_def Let_def split: option.splits)
qed

theorem VehicleCheckout_guards_page_copy_witness:
  "VehicleCheckout (checkoutPageFor inUseVehicle) = VehicleNotAvailable ''in_use''
   \<and> handleCheckout exampleRuntime
        ((checkoutPageFor inUseVehicle)\<lparr>co_vehicle := Some (inUseVehicle\<lparr>v_status := ''available''\<rparr>)\<rparr>)
        (storeWith inUseVehicle [activeAssignment])
     = handleCheckout exampleRuntime (checkoutPageFor inUseVehicle)
        (storeWith inUseVehicle [activeAssignment])"
proof -
  have veh: "co_vehicle (checkoutPageFor inUseVehicle) = Some inUseVehicle"
    by (simp add: checkoutPageFor_def)
  have busy: "v_status inUseVehicle \<noteq> ''available''"
    by (simp add: inUseVehicle_def)
  have loaded: "\<not> co_loading (checkoutPageFor inUseVehicle)"
    by (simp add: checkoutPageFor_def)
  note c7 = VehicleCheckout_guards_page_copy
              [OF veh busy, of exampleRuntime "storeWith inUseVehicle [activeAssignment]"]
  from c7 loaded have
    "VehicleCheckout (checkoutPageFor inUseVehicle) = VehicleNotAvailable (v_status inUseVehicle)"
    by blast
  then have screen:
    "VehicleCheckout (checkoutPageFor inUseVehicle) = VehicleNotAvailable ''in_use''"
    by (simp add: inUseVehicle_def)
  from c7 have
    "handleCheckout exampleRuntime
        ((checkoutPageFor inUseVehicle)\<lparr>co_vehicle := Some (inUseVehicle\<lparr>v_status := ''available''\<rparr>)\<rparr>)
        (storeWith inUseVehicle [activeAssignment])
     = handleCheckout exampleRuntime (checkoutPageFor inUseVehicle)
        (storeWith inUseVehicle [activeAssignment])"
    by blast
  with screen show ?thesis
    by simp
qed

text \<open>
  Stated for every vehicle whose status is not \<^verbatim>\<open>'available'\<close>, the claim fails when
  the stored vehicle is \<^verbatim>\<open>'in_use'\<close> while the page still holds a copy from the time
  it was available: the form is on screen with its button enabled, \<open>handleCheckout\<close>
  succeeds, a second active assignment is appended and the stored vehicle is given the
  new driver.
\<close>

theorem handleCheckout_stale_copy_checks_out:
  "map v_status (vehicles (storeWith inUseVehicle [activeAssignment])) = [''in_use'']
   \<and> map a_status (vehicle_assignments (storeWith inUseVehicle [activeAssignment])) = [''active'']
   \<and> VehicleCheckout staleCheckoutPage = CheckoutForm False
   \<and> fst (handleCheckout exampleRuntime staleCheckoutPage
            (storeWith inUseVehicle [activeAssignment]))
       = ToastSuccess ''Vehicle checked out successfully''
   \<and> map a_status (vehicle_assignments (snd (handleCheckout exampleRuntime staleCheckoutPage
            (storeWith inUseVehicle [activeAssignment]))))
       = [''active'', ''active'']
   \<and> map a_driverId (vehicle_assignments (snd (handleCheckout exampleRuntime staleCheckoutPage
            (storeWith inUseVehicle [activeAssignment]))))
       = [''D1'', ''D2'']
   \<and> map v_currentDriverId (vehicles (snd (handleCheckout exampleRuntime staleCheckoutPage
            (storeWith inUseVehicle [activeAssignment]))))
       = [Some ''D2'']"
  by (simp add: checkout_example_defs staleCheckoutPage_def)

lemma handleCheckout_success:
  assumes "co_vehicle p = Some vehicle"
    and "co_selectedDriverId p \<noteq> []" and "co_startingMileage p \<noteq> []"
    and "co_destination p \<noteq> []" and "co_tripPurpose p \<noteq> []" and "co_signature p \<noteq> []"
    and "co_estimatedReturn p = [] \<or> (\<exists>iso. rt_toISOString rt (co_estimatedReturn p) = Some iso)"
    and "\<exists>v \<in> set (vehicles st). v_id v = v_id vehicle"
  shows "fst (handleCheckout rt p st) = ToastSuccess ''Vehicle checked out successfully''"
    and "\<exists>a. vehicle_assignments (snd (handleCheckout rt p st)) = vehicle_assignments st @ [a]
             \<and> a_status a = ''active'' \<and> a_driverId a = co_selectedDriverId p"
    and "vehicles (snd (handleCheckout rt p st)) =
           map (\<lambda>v. if v_id v = v_id vehicle
                     then v\<lparr>v_status := ''in_use'',
                            v_currentDriverId := Some (co_selectedDriverId p),
                            v_currentMileage := parseInt (co_startingMileage p),
                            v_fuelLevel := parseInt (co_fuelLevel p),
                            v_updatedAt := Some (rt_now rt)\<rparr>
                     else v)
             (vehicles st)"
proof -
  from assms(7) obtain iso where
    date: "(if co_estimatedReturn p \<noteq> [] then rt_toISOString rt (co_estimatedReturn p)
            else Some []) = Some iso"
    by (cases "co_estimatedReturn p = []") auto
  from assms(1-6,8) show
    "fst (handleCheckout rt p st) = ToastSuccess ''Vehicle checked out successfully''"
    by (simp add: handleCheckout_def Let_def updateById_present date)
  from assms(1-6,8) show
    "\<exists>a. vehicle_assignments (snd (handleCheckout rt p st)) = vehicle_assignments st @ [a]
         \<and> a_status a = ''active'' \<and> a_driverId a = co_selectedDriverId p"
    by (simp add: handleCheckout_def Let_def updateById_present date)
  from assms(1-6,8) show
    "vehicles (snd (handleCheckout rt p st)) =
           map (\<lambda>v. if v_id v = v_id vehicle
                     then v\<lparr>v_status := ''in_use'',
                            v_currentDriverId := Some (co_selectedDriverId p),
                            v_currentMileage := parseInt (co_startingMileage p),
                            v_fuelLevel := parseInt (co_fuelLevel p),
                            v_updatedAt := Some (rt_now rt)\<rparr>
                     else v)
             (vehicles st)"
    by (simp add: handleCheckout_def Let_def updateById_present date)
qed

text \<open>
  Claim C4, as amended.  The checkout does not consult the service interval: for a vehicle
  whose service is overdue, whose stored status is \<^verbatim>\<open>'available'\<close> and whose checkout
  fields are all filled in, the checkout is not refused.  It succeeds, appends an active
  assignment for the selected driver and sets the vehicle record to \<^verbatim>\<open>'in_use'\<close>.
\<close>

theorem checkoutAttempt_overdue_not_refused:
  assumes "co_vehicle p = Some vehicle"
    and "isOverdue (getNextServiceInfo vehicle)"
    and "v_status vehicle = ''available''"
    and "\<not> co_loading p" and "\<not> co_submitting p"
    and "co_selectedDriverId p \<noteq> []" and "co_startingMileage p \<noteq> []"
    and "co_destination p \<noteq> []" and "co_tripPurpose p \<noteq> []" and "co_signature p \<noteq> []"
    and "co_estimatedReturn p = [] \<or> (\<exists>iso. rt_toISOString rt (co_estimatedReturn p) = Some iso)"
    and "\<exists>v \<in> set (vehicles st). v_id v = v_id vehicle"
  shows "fst (checkoutAttempt rt p st) = Submitted (ToastSuccess ''Vehicle checked out successfully'')
         \<and> (\<exists>a. vehicle_assignments (snd (checkoutAttempt rt p st)) = vehicle_assignments st @ [a]
                 \<and> a_status a = ''active'' \<and> a_driverId a = co_selectedDriverId p)
         \<and> (\<exists>v \<in> set (vehicles (snd (checkoutAttempt rt p st))). v_id v = v_id vehicle)
         \<and> (\<forall>v \<in> set (vehicles (snd (checkoutAttempt rt p st))).
               v_id v = v_id vehicle \<longrightarrow> v_status v = ''in_use'')"
proof -
  from assms have form: "VehicleCheckout p = CheckoutForm False"
    by (simp add: VehicleCheckout_def)
  note ran = handleCheckout_success [OF assms(1) assms(6-12)]
  from form ran(1) have toast:
    "fst (checkoutAttempt rt p st) = Submitted (ToastSuccess ''Vehicle checked out successfully'')"
    by (simp add: checkoutAttempt_def split_beta)
  from form have same: "snd (checkoutAttempt rt p st) = snd (handleCheckout rt p st)"
    by (simp add: checkoutAttempt_def split_beta)
  from ran(2) obtain a where
    appended: "vehicle_assignments (snd (checkoutAttempt rt p st)) = vehicle_assignments st @ [a]"
    and a: "a_status a = ''active''" "a_driverId a = co_selectedDriverId p"
    unfolding same by blast
  note after = ran(3) [folded same]
  from assms(12) obtain v0 where v0: "v0 \<in> set (vehicles st)" "v_id v0 = v_id vehicle"
    by blast
  let ?out = "v0\<lparr>v_status := ''in_use'',
                  v_currentDriverId := Some (co_selectedDriverId p),
                  v_currentMileage := parseInt (co_startingMileage p),
                  v_fuelLevel := parseInt (co_fuelLevel p),
                  v_updatedAt := Some (rt_now rt)\<rparr>"
  from v0 have "?out \<in> set (vehicles (snd (checkoutAttempt rt p st)))"
    unfolding after by force
  moreover from v0 have "v_id ?out = v_id vehicle"
    by simp
  ultimately have stored:
    "\<exists>v \<in> set (vehicles (snd (checkoutAttempt rt p st))). v_id v = v_id vehicle"
    by blast
  have in_use: "\<forall>v \<in> set (vehicles (snd (checkoutAttempt rt p st))).
               v_id v = v_id vehicle \<longrightarrow> v_status v = ''in_use''"
    unfolding after by auto
  from toast appended a stored in_use show ?thesis
    by blast
qed

theorem checkoutAttempt_overdue_not_refused_witness:
  "fst (checkoutAttempt exampleRuntime (checkoutPageFor overdueVehicle) (storeWith overdueVehicle []))
     = Submitted (ToastSuccess ''Vehicle checked out successfully'')
   \<and> length (vehicle_assignments (snd (checkoutAttempt exampleRuntime
               (checkoutPageFor overdueVehicle) (storeWith overdueVehicle [])))) = 1"
proof -
  let ?p = "checkoutPageFor overdueVehicle"
  let ?st = "storeWith overdueVehicle []"
  have veh: "co_vehicle ?p = Some overdueVehicle"
    by (simp add: checkoutPageFor_def)
  have overdue: "isOverdue (getNextServiceInfo overdueVehicle)"
    by (simp add: getNextServiceInfo_def overdueVehicle_def Let_def)
  have avail: "v_status overdueVehicle = ''available''"
    by (simp add: overdueVehicle_def)
  have form: "\<not> co_loading ?p" "\<not> co_submitting ?p"
    "co_selectedDriverId ?p \<noteq> []" "co_startingMileage ?p \<noteq> []"
    "co_destination ?p \<noteq> []" "co_tripPurpose ?p \<noteq> []" "co_signature ?p \<noteq> []"
    "co_estimatedReturn ?p = [] \<or>
       (\<exists>iso. rt_toISOString exampleRuntime (co_estimatedReturn ?p) = Some iso)"
    by (simp_all add: checkoutPageFor_def)
  have stored: "\<exists>v \<in> set (vehicles ?st). v_id v = v_id overdueVehicle"
    by (simp add: storeWith_def)
  note c4 = checkoutAttempt_overdue_not_refused [OF veh overdue avail form stored]
  from c4 obtain a where
    "vehicle_assignments (snd (checkoutAttempt exampleRuntime ?p ?st))
       = vehicle_assignments ?st @ [a]"
    by blast
  then have "length (vehicle_assignments (snd (checkoutAttempt exampleRuntime ?p ?st))) = 1"
    by (simp add: storeWith_def)
  with c4 show ?thesis
    by blast
qed

text \<open>
  The claim as stated fails: a vehicle that is 2000 km past its next service, stored as
  \<^verbatim>\<open>'available'\<close>, is checked out like any other; the result is a success, an active
  assignment and a vehicle in use.
\<close>

theorem checkoutAttempt_overdue_vehicle_checked_out:
  "isOverdue (getNextServiceInfo overdueVehicle)
   \<and> v_status overdueVehicle = ''available''
   \<and> fst (checkoutAttempt exampleRuntime (checkoutPageFor overdueVehicle) (storeWith overdueVehicle []))
     = Submitted (ToastSuccess ''Vehicle checked out successfully'')
   \<and> map a_status (vehicle_assignments (snd (checkoutAttempt exampleRuntime
          (checkoutPageFor overdueVehicle) (storeWith overdueVehicle [])))) = [''active'']
   \<and> map v_status (vehicles (snd (checkoutAttempt exampleRuntime
          (checkoutPageFor overdueVehicle) (storeWith overdueVehicle [])))) = [''in_use'']"
  by (simp add: checkout_example_defs getNextServiceInfo_def)

end
